theory Spec2Isabelle
  imports Complex_Main
begin

section \<open>The Minecraft Bedrock server monitor\<close>

text \<open>
  A shallow embedding of the class \<open>MinecraftServer\<close> of
  \<open>custom_components/minecraft_bedrock/__init__.py\<close>. The object is a record that
  every method takes and returns. What a method does to the outside (log records,
  calls of the collaborators, the dispatcher signal) is returned as a list of events in
  program order. A Python exception that leaves a method is the third component of the
  result; the record returned with it holds the assignments made before the raise, as
  the object does in Python.
\<close>

subsection \<open>Exceptions and collaborator answers\<close>

text \<open>
  \<open>OSError\<close> stands for \<open>OSError\<close> and its subclasses, the only class the two
  \<open>except\<close> clauses name. \<open>NameError\<close> is what Python raises on reading an unbound
  global name. \<open>OtherError\<close> is every exception class that \<open>except OSError\<close> does not
  catch. Each carries its text.
\<close>

datatype pyexc = OSError string | NameError string | OtherError string

fun is_OSError :: "pyexc \<Rightarrow> bool" where
  "is_OSError (OSError t) = True"
| "is_OSError (NameError t) = False"
| "is_OSError (OtherError t) = False"

fun exc_text :: "pyexc \<Rightarrow> string" where
  "exc_text (OSError t) = t"
| "exc_text (NameError t) = t"
| "exc_text (OtherError t) = t"

datatype 'a outcome = Returns 'a | Raises pyexc

text \<open>
  The attributes of the status response that \<open>_async_status_request\<close> reads.
  The latency is a Python float; it is modelled as an exact rational.
\<close>

record StatusResponse =
  resp_brand :: string
  resp_protocol :: int
  resp_players_max :: int
  resp_players_online :: int
  resp_latency :: rat
  resp_motd :: string
  resp_map :: string

subsection \<open>Events\<close>

datatype level = DEBUG | INFO | WARNING

text \<open>One constructor for each format string passed to \<open>_LOGGER\<close>, with its arguments.\<close>

datatype message =
    SrvRecordValid string string int
  | ConnCheckError string int string
  | ConnLost string int
  | ConnEstablished string int
  | UpdateSucceeded string int
  | UpdateFailed string int string

datatype event =
    Log level message
  | SrvLookup string
  | StatusCall string int nat
  | DispatcherSend string

fun is_SrvLookup :: "event \<Rightarrow> bool" where
  "is_SrvLookup (SrvLookup h) = True"
| "is_SrvLookup (Log l m) = False"
| "is_SrvLookup (StatusCall h p n) = False"
| "is_SrvLookup (DispatcherSend g) = False"

fun is_StatusCall :: "event \<Rightarrow> bool" where
  "is_StatusCall (StatusCall h p n) = True"
| "is_StatusCall (Log l m) = False"
| "is_StatusCall (SrvLookup h) = False"
| "is_StatusCall (DispatcherSend g) = False"

fun is_DispatcherSend :: "event \<Rightarrow> bool" where
  "is_DispatcherSend (DispatcherSend g) = True"
| "is_DispatcherSend (Log l m) = False"
| "is_DispatcherSend (SrvLookup h) = False"
| "is_DispatcherSend (StatusCall h p n) = False"

text \<open>The log records a user sees at the default level: warnings and infos.\<close>

fun is_user_log :: "event \<Rightarrow> bool" where
  "is_user_log (Log l m) = (l = INFO \<or> l = WARNING)"
| "is_user_log (SrvLookup h) = False"
| "is_user_log (StatusCall h p n) = False"
| "is_user_log (DispatcherSend g) = False"

fun is_conn_lost :: "event \<Rightarrow> bool" where
  "is_conn_lost (Log l (ConnLost h p)) = (l = WARNING)"
| "is_conn_lost e = False"

fun is_conn_established :: "event \<Rightarrow> bool" where
  "is_conn_established (Log l (ConnEstablished h p)) = (l = INFO)"
| "is_conn_established e = False"

subsection \<open>The server object\<close>

text \<open>
  \<open>mc_status\<close> is the host and port the 3rd party client instance was built with.
  \<open>map_field\<close> is the attribute \<open>map\<close>. \<open>None\<close> is Python's \<open>None\<close>.
\<close>

record MinecraftServer =
  unique_id :: string
  name :: string
  host :: string
  port :: int
  online :: bool
  last_status_request_failed :: bool
  srv_record_checked :: bool
  mc_status :: "string \<times> int"
  version :: "string option"
  protocol_version :: "int option"
  latency_time :: "rat option"
  players_online :: "int option"
  players_max :: "int option"
  players_list :: "string list option"
  motd :: "string option"
  map_field :: "string option"
  signal_name :: string

type_synonym result = "MinecraftServer \<times> event list \<times> pyexc option"

definition MAX_RETRIES_STATUS :: nat where
  "MAX_RETRIES_STATUS = 3"

text \<open>
  \<open>__init__\<close>. The constant \<open>SIGNAL_NAME_PREFIX\<close> of \<open>const.py\<close> is a parameter,
  and so are the three entries read from the configuration.
\<close>

definition init :: "string \<Rightarrow> string \<Rightarrow> string \<Rightarrow> string \<Rightarrow> int \<Rightarrow> MinecraftServer" where
  "init prefix uid nm h p =
     \<lparr> unique_id = uid, name = nm, host = h, port = p,
       online = False, last_status_request_failed = False, srv_record_checked = False,
       mc_status = (h, p),
       version = None, protocol_version = None, latency_time = None,
       players_online = None, players_max = None, players_list = None,
       motd = None, map_field = None,
       signal_name = prefix @ ''_'' @ uid \<rparr>"

subsection \<open>Rounding\<close>

text \<open>
  Python's \<open>round(x, 3)\<close>, computed on exact rationals: to the nearest multiple of one
  thousandth, a tie to the even one. The code computes on floats. The two agree where the
  latency, its product with 10000 and the rounded value are binary fractions that a float
  holds exactly (as for the latency one half used below); elsewhere the float product is
  itself rounded first and the results can differ in the last digit, and a float can
  overflow where a rational cannot. Nothing below relies on the rounding outside such
  exact inputs.
\<close>

definition round_half_even :: "rat \<Rightarrow> int" where
  "round_half_even q =
     (let f = \<lfloor>q\<rfloor>; d = q - of_int f
      in if d < 1 / 2 then f
         else if 1 / 2 < d then f + 1
         else if even f then f else f + 1)"

definition py_round3 :: "rat \<Rightarrow> rat" where
  "py_round3 x = of_int (round_half_even (x * 1000)) / 1000"

subsection \<open>The methods\<close>

text \<open>
  The first block of \<open>async_check_connection\<close>: the SRV record check. The flag is set
  before the helper is awaited. When the helper returns a record, host and port are
  overwritten and then \<open>MCStatus(self.host, self.port)\<close> is evaluated; the module binds
  no name \<open>MCStatus\<close> (the client class is imported as \<open>MCStatusBedrock\<close>), so the
  evaluation raises \<open>NameError\<close> and \<open>_mc_status\<close> keeps the old instance.
\<close>

definition srv_check :: "MinecraftServer \<Rightarrow> (string \<times> int) option outcome \<Rightarrow> result" where
  "srv_check s srv =
     (if \<not> srv_record_checked s then
        (let s1 = s\<lparr>srv_record_checked := True\<rparr>;
             ev = [SrvLookup (host s1)]
         in case srv of
              Raises e \<Rightarrow> (s1, ev, Some e)
            | Returns None \<Rightarrow> (s1, ev, None)
            | Returns (Some (h, p)) \<Rightarrow>
                (s1\<lparr>host := h, port := p\<rparr>,
                 ev @ [Log DEBUG (SrvRecordValid (host s1) h p)],
                 Some (NameError ''MCStatus'')))
      else (s, [], None))"

text \<open>The second block: the ping, a status request whose answer is dropped.\<close>

definition ping :: "MinecraftServer \<Rightarrow> StatusResponse outcome \<Rightarrow> result" where
  "ping s answer =
     (let call = StatusCall (fst (mc_status s)) (snd (mc_status s)) MAX_RETRIES_STATUS
      in case answer of
           Returns r \<Rightarrow> (s\<lparr>online := True\<rparr>, [call], None)
         | Raises e \<Rightarrow>
             if is_OSError e then
               (s\<lparr>online := False\<rparr>,
                [call, Log DEBUG (ConnCheckError (host s) (port s) (exc_text e))], None)
             else (s, [call], Some e))"

definition async_check_connection ::
  "MinecraftServer \<Rightarrow> (string \<times> int) option outcome \<Rightarrow> StatusResponse outcome \<Rightarrow> result" where
  "async_check_connection s srv answer =
     (case srv_check s srv of
        (s1, ev1, Some e) \<Rightarrow> (s1, ev1, Some e)
      | (s1, ev1, None) \<Rightarrow>
          (case ping s1 answer of (s2, ev2, x) \<Rightarrow> (s2, ev1 @ ev2, x)))"

definition async_status_request :: "MinecraftServer \<Rightarrow> StatusResponse outcome \<Rightarrow> result" where
  "async_status_request s answer =
     (let call = StatusCall (fst (mc_status s)) (snd (mc_status s)) MAX_RETRIES_STATUS
      in case answer of
           Returns r \<Rightarrow>
             (s\<lparr>version := Some (resp_brand r),
                players_max := Some (resp_players_max r),
                players_online := Some (resp_players_online r),
                latency_time := Some (py_round3 (resp_latency r * 10000)),
                motd := Some (resp_motd r),
                map_field := Some (resp_map r),
                protocol_version := Some (resp_protocol r),
                last_status_request_failed := False\<rparr>,
              call # (if last_status_request_failed s
                      then [Log INFO (UpdateSucceeded (host s) (port s))] else []),
              None)
         | Raises e \<Rightarrow>
             if is_OSError e then
               (s\<lparr>version := None,
                  protocol_version := None,
                  players_online := None,
                  players_max := None,
                  latency_time := None,
                  players_list := None,
                  motd := None,
                  map_field := None,
                  last_status_request_failed := True\<rparr>,
                call # (if \<not> last_status_request_failed s
                        then [Log WARNING (UpdateFailed (host s) (port s) (exc_text e))]
                        else []),
                None)
             else (s, [call], Some e))"

text \<open>What the collaborators answer during one call of \<open>async_update\<close>.\<close>

record cycle =
  srv_answer :: "(string \<times> int) option outcome"
  ping_answer :: "StatusResponse outcome"
  status_answer :: "StatusResponse outcome"

definition transition_log :: "bool \<Rightarrow> MinecraftServer \<Rightarrow> event list" where
  "transition_log server_online_old s =
     (if server_online_old \<and> \<not> online s then [Log WARNING (ConnLost (host s) (port s))]
      else if \<not> server_online_old \<and> online s
        then [Log INFO (ConnEstablished (host s) (port s))]
      else [])"

definition async_update :: "MinecraftServer \<Rightarrow> cycle \<Rightarrow> result" where
  "async_update s c =
     (let server_online_old = online s
      in case async_check_connection s (srv_answer c) (ping_answer c) of
           (s1, ev1, Some e) \<Rightarrow> (s1, ev1, Some e)
         | (s1, ev1, None) \<Rightarrow>
             (let ev2 = transition_log server_online_old s1
              in if online s1 then
                   (case async_status_request s1 (status_answer c) of
                      (s2, ev3, Some e) \<Rightarrow> (s2, ev1 @ ev2 @ ev3, Some e)
                    | (s2, ev3, None) \<Rightarrow>
                        (s2, ev1 @ ev2 @ ev3 @ [DispatcherSend (signal_name s2)], None))
                 else (s1, ev1 @ ev2 @ [DispatcherSend (signal_name s1)], None)))"

subsection \<open>Sequences of calls\<close>

text \<open>
  The timer calls \<open>async_update\<close> on the same object again and again; each call starts
  from the object as the call before left it, also when that call raised.
\<close>

fun run_updates :: "MinecraftServer \<Rightarrow> cycle list \<Rightarrow> result list" where
  "run_updates s [] = []"
| "run_updates s (c # cs) = async_update s c # run_updates (fst (async_update s c)) cs"

fun after_updates :: "MinecraftServer \<Rightarrow> cycle list \<Rightarrow> MinecraftServer" where
  "after_updates s [] = s"
| "after_updates s (c # cs) = after_updates (fst (async_update s c)) cs"

text \<open>Consecutive calls of \<open>_async_status_request\<close> on one object.\<close>

fun status_requests :: "MinecraftServer \<Rightarrow> StatusResponse outcome list \<Rightarrow> result list" where
  "status_requests s [] = []"
| "status_requests s (a # as) =
     async_status_request s a # status_requests (fst (async_status_request s a)) as"

definition events_of :: "result \<Rightarrow> event list" where
  "events_of r = fst (snd r)"

definition raised :: "result \<Rightarrow> pyexc option" where
  "raised r = snd (snd r)"

definition user_logs :: "result \<Rightarrow> event list" where
  "user_logs r = filter is_user_log (events_of r)"

text \<open>The seven metric attributes the sensors read.\<close>

definition metrics_blank :: "MinecraftServer \<Rightarrow> bool" where
  "metrics_blank s =
     (version s = None \<and> protocol_version s = None \<and> latency_time s = None \<and>
      players_online s = None \<and> players_max s = None \<and> motd s = None \<and>
      map_field s = None)"

text \<open>The object before each call of a sequence, and the object after a sequence of
  metrics requests.\<close>

fun states_before :: "MinecraftServer \<Rightarrow> cycle list \<Rightarrow> MinecraftServer list" where
  "states_before s [] = []"
| "states_before s (c # cs) = s # states_before (fst (async_update s c)) cs"

fun after_status_requests :: "MinecraftServer \<Rightarrow> StatusResponse outcome list \<Rightarrow> MinecraftServer" where
  "after_status_requests s [] = s"
| "after_status_requests s (a # as) = after_status_requests (fst (async_status_request s a)) as"

subsection \<open>Sample inputs\<close>

text \<open>A monitor, a status response and two cycles: one in which both requests time out, one
  in which both are answered.\<close>

abbreviation example_server :: MinecraftServer where
  "example_server \<equiv> init ''signal_minecraft_bedrock'' ''abc123'' ''Bedrock'' ''mc.example.org'' 19132"

abbreviation example_response :: StatusResponse where
  "example_response \<equiv>
     \<lparr> resp_brand = ''MCPE'', resp_protocol = 486, resp_players_max = 10,
       resp_players_online = 2, resp_latency = 1 / 2, resp_motd = ''Hello'',
       resp_map = ''World'' \<rparr>"

abbreviation offline_cycle :: cycle where
  "offline_cycle \<equiv>
     \<lparr> srv_answer = Returns None, ping_answer = Raises (OSError ''timed out''),
       status_answer = Raises (OSError ''timed out'') \<rparr>"

abbreviation online_cycle :: cycle where
  "online_cycle \<equiv>
     \<lparr> srv_answer = Returns None, ping_answer = Returns example_response,
       status_answer = Returns example_response \<rparr>"

section \<open>Facts about the methods\<close>

lemmas method_defs = srv_check_def ping_def async_check_connection_def
  async_status_request_def transition_log_def async_update_def
  events_of_def raised_def user_logs_def Let_def

lemmas answer_splits = outcome.splits option.splits prod.splits if_splits

lemma srv_check_done: "srv_record_checked s \<Longrightarrow> srv_check s srv = (s, [], None)"
  by (simp add: srv_check_def)

lemma srv_check_sets_flag: "srv_record_checked (fst (srv_check s srv))"
  by (simp add: srv_check_def Let_def split: answer_splits)

lemma srv_check_lookups: "length (filter is_SrvLookup (events_of (srv_check s srv))) \<le> 1"
  by (simp add: srv_check_def events_of_def Let_def split: answer_splits)

lemma srv_check_online: "online (fst (srv_check s srv)) = online s"
  by (simp add: srv_check_def Let_def split: answer_splits)

lemma ping_keeps:
  "srv_record_checked (fst (ping s a)) = srv_record_checked s"
  "host (fst (ping s a)) = host s"
  "port (fst (ping s a)) = port s"
  "filter is_SrvLookup (events_of (ping s a)) = []"
  by (simp_all add: ping_def events_of_def Let_def split: answer_splits)

lemma status_request_keeps:
  "srv_record_checked (fst (async_status_request s a)) = srv_record_checked s"
  "host (fst (async_status_request s a)) = host s"
  "port (fst (async_status_request s a)) = port s"
  "online (fst (async_status_request s a)) = online s"
  "signal_name (fst (async_status_request s a)) = signal_name s"
  "filter is_SrvLookup (events_of (async_status_request s a)) = []"
  "filter is_conn_lost (events_of (async_status_request s a)) = []"
  "filter is_conn_established (events_of (async_status_request s a)) = []"
  "filter is_DispatcherSend (events_of (async_status_request s a)) = []"
  by (simp_all add: async_status_request_def events_of_def Let_def split: answer_splits)

lemma check_connection_keeps:
  "srv_record_checked (fst (async_check_connection s srv a))"
  "signal_name (fst (async_check_connection s srv a)) = signal_name s"
  "filter is_conn_lost (events_of (async_check_connection s srv a)) = []"
  "filter is_conn_established (events_of (async_check_connection s srv a)) = []"
  "filter is_DispatcherSend (events_of (async_check_connection s srv a)) = []"
  "filter is_user_log (events_of (async_check_connection s srv a)) = []"
  by (simp_all add: async_check_connection_def srv_check_def ping_def events_of_def Let_def
      split: answer_splits)

lemma check_connection_done:
  "srv_record_checked s \<Longrightarrow>
     host (fst (async_check_connection s srv a)) = host s \<and>
     port (fst (async_check_connection s srv a)) = port s \<and>
     filter is_SrvLookup (events_of (async_check_connection s srv a)) = []"
  by (simp add: async_check_connection_def srv_check_def ping_def events_of_def Let_def
      split: answer_splits)

lemma check_connection_lookups:
  "length (filter is_SrvLookup (events_of (async_check_connection s srv a))) \<le> 1"
  by (simp add: async_check_connection_def srv_check_def ping_def events_of_def Let_def
      split: answer_splits)

lemma check_connection_raised_online:
  "raised (async_check_connection s srv a) \<noteq> None \<Longrightarrow>
     online (fst (async_check_connection s srv a)) = online s"
  by (auto simp add: async_check_connection_def srv_check_def ping_def raised_def Let_def
      split: answer_splits)

text \<open>\<open>async_update\<close> in terms of its parts, by how far the call gets.\<close>

lemma async_update_aborted:
  "raised (async_check_connection s (srv_answer c) (ping_answer c)) \<noteq> None \<Longrightarrow>
     async_update s c = async_check_connection s (srv_answer c) (ping_answer c)"
  by (auto simp add: async_update_def raised_def Let_def split: answer_splits)

lemma async_update_offline:
  "raised (async_check_connection s (srv_answer c) (ping_answer c)) = None \<Longrightarrow>
   \<not> online (fst (async_check_connection s (srv_answer c) (ping_answer c))) \<Longrightarrow>
     async_update s c =
       (fst (async_check_connection s (srv_answer c) (ping_answer c)),
        events_of (async_check_connection s (srv_answer c) (ping_answer c)) @
        transition_log (online s) (fst (async_check_connection s (srv_answer c) (ping_answer c))) @
        [DispatcherSend (signal_name s)], None)"
  using check_connection_keeps(2)[of s "srv_answer c" "ping_answer c"]
  by (auto simp add: async_update_def raised_def events_of_def Let_def split: answer_splits)

lemma async_update_online:
  "raised (async_check_connection s (srv_answer c) (ping_answer c)) = None \<Longrightarrow>
   online (fst (async_check_connection s (srv_answer c) (ping_answer c))) \<Longrightarrow>
     async_update s c =
       (fst (async_status_request (fst (async_check_connection s (srv_answer c) (ping_answer c))) (status_answer c)),
        events_of (async_check_connection s (srv_answer c) (ping_answer c)) @
        transition_log (online s) (fst (async_check_connection s (srv_answer c) (ping_answer c))) @
        events_of (async_status_request (fst (async_check_connection s (srv_answer c) (ping_answer c))) (status_answer c)) @
        (if raised (async_status_request (fst (async_check_connection s (srv_answer c) (ping_answer c))) (status_answer c)) = None
         then [DispatcherSend (signal_name s)] else []),
        raised (async_status_request (fst (async_check_connection s (srv_answer c) (ping_answer c))) (status_answer c)))"
  using check_connection_keeps(2)[of s "srv_answer c" "ping_answer c"]
    status_request_keeps(5)[of "fst (async_check_connection s (srv_answer c) (ping_answer c))" "status_answer c"]
  by (auto simp add: async_update_def raised_def events_of_def Let_def split: answer_splits)

lemma update_cases:
  obtains
    (aborted) "raised (async_check_connection s (srv_answer c) (ping_answer c)) \<noteq> None"
  | (offline) "raised (async_check_connection s (srv_answer c) (ping_answer c)) = None"
      "\<not> online (fst (async_check_connection s (srv_answer c) (ping_answer c)))"
  | (online) "raised (async_check_connection s (srv_answer c) (ping_answer c)) = None"
      "online (fst (async_check_connection s (srv_answer c) (ping_answer c)))"
  by blast

lemma transition_log_filters:
  "filter is_conn_lost (transition_log old s) =
     (if old \<and> \<not> online s then [Log WARNING (ConnLost (host s) (port s))] else [])"
  "filter is_conn_established (transition_log old s) =
     (if \<not> old \<and> online s then [Log INFO (ConnEstablished (host s) (port s))] else [])"
  "filter is_DispatcherSend (transition_log old s) = []"
  "filter is_SrvLookup (transition_log old s) = []"
  by (simp_all add: transition_log_def)

lemma update_edges:
  "filter is_conn_lost (events_of (async_update s c)) =
     (if online s \<and> \<not> online (fst (async_update s c))
      then [Log WARNING (ConnLost (host (fst (async_update s c))) (port (fst (async_update s c))))]
      else [])"
  "filter is_conn_established (events_of (async_update s c)) =
     (if \<not> online s \<and> online (fst (async_update s c))
      then [Log INFO (ConnEstablished (host (fst (async_update s c))) (port (fst (async_update s c))))]
      else [])"
proof -
  let ?r = "async_check_connection s (srv_answer c) (ping_answer c)"
  let ?q = "async_status_request (fst ?r) (status_answer c)"
  note cc = check_connection_keeps(3,4) [of s "srv_answer c" "ping_answer c"]
  note sr = status_request_keeps(2,3,4,7,8) [of "fst ?r" "status_answer c"]
  have "filter is_conn_lost (events_of (async_update s c)) =
     (if online s \<and> \<not> online (fst (async_update s c))
      then [Log WARNING (ConnLost (host (fst (async_update s c))) (port (fst (async_update s c))))]
      else []) \<and>
    filter is_conn_established (events_of (async_update s c)) =
     (if \<not> online s \<and> online (fst (async_update s c))
      then [Log INFO (ConnEstablished (host (fst (async_update s c))) (port (fst (async_update s c))))]
      else [])"
  proof (cases rule: update_cases [of s c])
    case aborted
    then show ?thesis
      using cc check_connection_raised_online [of s "srv_answer c" "ping_answer c"]
      by (simp add: async_update_aborted)
  next
    case offline
    then show ?thesis
      using cc by (simp add: async_update_offline transition_log_filters events_of_def)
  next
    case online
    then show ?thesis
      using cc sr by (simp add: async_update_online transition_log_filters events_of_def)
  qed
  then show "filter is_conn_lost (events_of (async_update s c)) =
     (if online s \<and> \<not> online (fst (async_update s c))
      then [Log WARNING (ConnLost (host (fst (async_update s c))) (port (fst (async_update s c))))]
      else [])"
  "filter is_conn_established (events_of (async_update s c)) =
     (if \<not> online s \<and> online (fst (async_update s c))
      then [Log INFO (ConnEstablished (host (fst (async_update s c))) (port (fst (async_update s c))))]
      else [])" by simp_all
qed

lemma check_connection_metrics:
  "version (fst (async_check_connection s srv a)) = version s"
  "protocol_version (fst (async_check_connection s srv a)) = protocol_version s"
  "latency_time (fst (async_check_connection s srv a)) = latency_time s"
  "players_online (fst (async_check_connection s srv a)) = players_online s"
  "players_max (fst (async_check_connection s srv a)) = players_max s"
  "players_list (fst (async_check_connection s srv a)) = players_list s"
  "motd (fst (async_check_connection s srv a)) = motd s"
  "map_field (fst (async_check_connection s srv a)) = map_field s"
  "last_status_request_failed (fst (async_check_connection s srv a)) = last_status_request_failed s"
  by (simp_all add: async_check_connection_def srv_check_def ping_def Let_def
      split: answer_splits)

lemma offline_update_is_check:
  assumes "\<not> online (fst (async_update s c))"
  shows "fst (async_update s c) = fst (async_check_connection s (srv_answer c) (ping_answer c))"
proof (cases rule: update_cases [of s c])
  case aborted
  then show ?thesis by (simp add: async_update_aborted)
next
  case offline
  then show ?thesis by (simp add: async_update_offline)
next
  case online
  with assms show ?thesis by (simp add: async_update_online status_request_keeps)
qed

lemma status_request_fail:
  "user_logs (async_status_request s (Raises (OSError e))) =
     (if last_status_request_failed s then []
      else [Log WARNING (UpdateFailed (host s) (port s) e)])"
  "last_status_request_failed (fst (async_status_request s (Raises (OSError e))))"
  by (simp_all add: async_status_request_def user_logs_def events_of_def Let_def)

lemma status_request_ok:
  "user_logs (async_status_request s (Returns r)) =
     (if last_status_request_failed s then [Log INFO (UpdateSucceeded (host s) (port s))]
      else [])"
  "\<not> last_status_request_failed (fst (async_status_request s (Returns r)))"
  by (simp_all add: async_status_request_def user_logs_def events_of_def Let_def)

lemma status_request_unhandled:
  "\<not> is_OSError x \<Longrightarrow>
     raised (async_status_request s (Raises x)) = Some x \<and>
     user_logs (async_status_request s (Raises x)) = [] \<and>
     fst (async_status_request s (Raises x)) = s"
  by (simp add: async_status_request_def raised_def user_logs_def events_of_def Let_def)

lemma status_requests_append:
  "status_requests s (xs @ ys) =
     status_requests s xs @ status_requests (after_status_requests s xs) ys"
  by (induction xs arbitrary: s) simp_all

lemma after_status_requests_keeps:
  "host (after_status_requests s xs) = host s \<and> port (after_status_requests s xs) = port s"
  by (induction xs arbitrary: s) (simp_all add: status_request_keeps)

lemma failures_silent:
  "last_status_request_failed s \<Longrightarrow>
     map user_logs (status_requests s (map (\<lambda>e. Raises (OSError e)) es)) =
       replicate (length es) [] \<and>
     map (\<lambda>r. last_status_request_failed (fst r))
       (status_requests s (map (\<lambda>e. Raises (OSError e)) es)) = replicate (length es) True \<and>
     last_status_request_failed (after_status_requests s (map (\<lambda>e. Raises (OSError e)) es))"
  by (induction es arbitrary: s) (simp_all add: status_request_fail)

lemma successes_silent:
  "\<not> last_status_request_failed s \<Longrightarrow>
     map user_logs (status_requests s (map Returns rs)) = replicate (length rs) [] \<and>
     map (\<lambda>r. last_status_request_failed (fst r)) (status_requests s (map Returns rs)) =
       replicate (length rs) False"
  by (induction rs arbitrary: s) (simp_all add: status_request_ok)

lemma update_sets_flag: "srv_record_checked (fst (async_update s c))"
  by (cases rule: update_cases [of s c])
    (simp_all add: async_update_aborted async_update_offline async_update_online
      check_connection_keeps status_request_keeps)

lemma update_lookups:
  "length (filter is_SrvLookup (events_of (async_update s c))) \<le> 1"
  using check_connection_lookups [of s "srv_answer c" "ping_answer c"]
    status_request_keeps(6) [of "fst (async_check_connection s (srv_answer c) (ping_answer c))" "status_answer c"]
  by (cases rule: update_cases [of s c])
    (simp_all add: async_update_aborted async_update_offline async_update_online
      transition_log_filters events_of_def)

lemma update_done:
  assumes "srv_record_checked s"
  shows "host (fst (async_update s c)) = host s"
    "port (fst (async_update s c)) = port s"
    "filter is_SrvLookup (events_of (async_update s c)) = []"
  using check_connection_done [OF assms, of "srv_answer c" "ping_answer c"]
    status_request_keeps(6) [of "fst (async_check_connection s (srv_answer c) (ping_answer c))" "status_answer c"]
  by (cases rule: update_cases [of s c];
      simp add: async_update_aborted async_update_offline async_update_online
      transition_log_filters status_request_keeps events_of_def)+

lemma run_done:
  "srv_record_checked s \<Longrightarrow>
     filter is_SrvLookup (concat (map events_of (run_updates s cs))) = [] \<and>
     host (after_updates s cs) = host s \<and> port (after_updates s cs) = port s"
  by (induction cs arbitrary: s) (simp_all add: update_done update_sets_flag)

section \<open>The claims\<close>

text \<open>
  C1, as stated: in every reachable state with \<open>online = False\<close> all metric
  attributes are \<open>None\<close>. The code does not do this. After one cycle in which both
  requests are answered and one cycle in which the ping times out, the monitor is offline
  and still holds the version and the latency of the first cycle.
\<close>

theorem stale_metrics_counterexample:
  "online (after_updates example_server [online_cycle, offline_cycle]) = False \<and>
   version (after_updates example_server [online_cycle, offline_cycle]) = Some ''MCPE'' \<and>
   latency_time (after_updates example_server [online_cycle, offline_cycle]) = Some 5000 \<and>
   \<not> metrics_blank (after_updates example_server [online_cycle, offline_cycle])"
  by (simp add: method_defs init_def metrics_blank_def py_round3_def round_half_even_def)

text \<open>
  C1, amended: a call of \<open>async_update\<close> that leaves the monitor offline leaves every
  metric attribute as it was before the call, whatever the collaborators answered. So an
  offline monitor has blank metrics exactly when they were blank before the call; the
  attributes are cleared by a failed metrics request only, and that request is made only
  when the monitor is online.
\<close>

theorem offline_result_keeps_metrics:
  assumes "\<not> online (fst (async_update s c))"
  shows "version (fst (async_update s c)) = version s \<and>
         protocol_version (fst (async_update s c)) = protocol_version s \<and>
         latency_time (fst (async_update s c)) = latency_time s \<and>
         players_online (fst (async_update s c)) = players_online s \<and>
         players_max (fst (async_update s c)) = players_max s \<and>
         players_list (fst (async_update s c)) = players_list s \<and>
         motd (fst (async_update s c)) = motd s \<and>
         map_field (fst (async_update s c)) = map_field s \<and>
         metrics_blank (fst (async_update s c)) = metrics_blank s"
  by (simp add: offline_update_is_check [OF assms] check_connection_metrics metrics_blank_def)

theorem offline_result_keeps_metrics_witness:
  "\<not> online (fst (async_update (after_updates example_server [online_cycle]) offline_cycle)) \<and>
   version (fst (async_update (after_updates example_server [online_cycle]) offline_cycle)) = Some ''MCPE'' \<and>
   players_online (fst (async_update (after_updates example_server [online_cycle]) offline_cycle)) = Some 2"
proof -
  have h: "\<not> online (fst (async_update (after_updates example_server [online_cycle]) offline_cycle))"
    by (simp add: method_defs init_def)
  have v: "version (after_updates example_server [online_cycle]) = Some ''MCPE''"
    "players_online (after_updates example_server [online_cycle]) = Some 2"
    by (simp_all add: method_defs init_def)
  from offline_result_keeps_metrics [OF h] h v show ?thesis by simp
qed

text \<open>
  C2, as stated: every failure of the status query during the ping becomes the offline
  result and no exception escapes. The \<open>except\<close> clause names \<open>OSError\<close> only: an
  exception of another class raised by the status query leaves \<open>async_check_connection\<close>
  and \<open>async_update\<close>, and that cycle sends no dispatcher signal.
\<close>

theorem probe_exception_escapes_counterexample:
  "raised (async_check_connection example_server (Returns None)
     (Raises (OtherError ''unpack requires a buffer of 8 bytes''))) =
     Some (OtherError ''unpack requires a buffer of 8 bytes'') \<and>
   raised (async_update example_server
     \<lparr> srv_answer = Returns None,
       ping_answer = Raises (OtherError ''unpack requires a buffer of 8 bytes''),
       status_answer = Returns example_response \<rparr>) =
     Some (OtherError ''unpack requires a buffer of 8 bytes'') \<and>
   filter is_DispatcherSend (events_of (async_update example_server
     \<lparr> srv_answer = Returns None,
       ping_answer = Raises (OtherError ''unpack requires a buffer of 8 bytes''),
       status_answer = Returns example_response \<rparr>)) = []"
  by (simp add: method_defs init_def)

text \<open>
  C2, amended: when the SRV check does not raise (it was done before, or the helper
  returns no record), an \<open>OSError\<close> of the status query during the ping is caught and
  the monitor is set offline: no exception leaves \<open>async_check_connection\<close> or
  \<open>async_update\<close>. An exception of any other class is not caught: it leaves
  \<open>async_check_connection\<close> and \<open>async_update\<close>, \<open>online\<close> stays as it was, and
  that cycle sends no dispatcher signal.
\<close>

theorem probe_catches_only_OSError:
  assumes "srv_record_checked s \<or> srv = Returns None"
  shows "(is_OSError e \<longrightarrow>
            raised (async_check_connection s srv (Raises e)) = None \<and>
            online (fst (async_check_connection s srv (Raises e))) = False) \<and>
         (\<not> is_OSError e \<longrightarrow>
            raised (async_check_connection s srv (Raises e)) = Some e \<and>
            online (fst (async_check_connection s srv (Raises e))) = online s) \<and>
         (srv_answer c = srv \<and> ping_answer c = Raises e \<longrightarrow>
            (is_OSError e \<longrightarrow>
               raised (async_update s c) = None \<and>
               online (fst (async_update s c)) = False) \<and>
            (\<not> is_OSError e \<longrightarrow>
               raised (async_update s c) = Some e \<and>
               online (fst (async_update s c)) = online s \<and>
               filter is_DispatcherSend (events_of (async_update s c)) = []))"
proof -
  have check: "(is_OSError e \<longrightarrow>
            raised (async_check_connection s srv (Raises e)) = None \<and>
            online (fst (async_check_connection s srv (Raises e))) = False) \<and>
         (\<not> is_OSError e \<longrightarrow>
            raised (async_check_connection s srv (Raises e)) = Some e \<and>
            online (fst (async_check_connection s srv (Raises e))) = online s)"
    using assms
    by (auto simp add: async_check_connection_def srv_check_def ping_def raised_def Let_def)
  have update: "raised (async_update s c) = None \<and> online (fst (async_update s c)) = False"
    if "srv_answer c = srv" "ping_answer c = Raises e" "is_OSError e"
  proof -
    let ?r = "async_check_connection s (srv_answer c) (ping_answer c)"
    from check that have "raised ?r = None" "\<not> online (fst ?r)" by simp_all
    then show ?thesis by (simp add: async_update_offline raised_def)
  qed
  have escape: "raised (async_update s c) = Some e \<and>
      online (fst (async_update s c)) = online s \<and>
      filter is_DispatcherSend (events_of (async_update s c)) = []"
    if "srv_answer c = srv" "ping_answer c = Raises e" "\<not> is_OSError e"
  proof -
    let ?r = "async_check_connection s (srv_answer c) (ping_answer c)"
    from check that have r: "raised ?r = Some e" "online (fst ?r) = online s" by simp_all
    then have "async_update s c = ?r" by (simp add: async_update_aborted)
    with r show ?thesis by (simp add: check_connection_keeps)
  qed
  from check update escape show ?thesis by blast
qed

theorem probe_catches_only_OSError_witness:
  "raised (async_check_connection example_server (Returns None)
     (Raises (OSError ''timed out''))) = None \<and>
   online (fst (async_check_connection example_server (Returns None)
     (Raises (OSError ''timed out'')))) = False \<and>
   raised (async_update example_server offline_cycle) = None \<and>
   online (fst (async_update example_server offline_cycle)) = False \<and>
   raised (async_check_connection (after_updates example_server [online_cycle]) (Returns None)
     (Raises (OtherError ''bad reply''))) = Some (OtherError ''bad reply'') \<and>
   online (fst (async_check_connection (after_updates example_server [online_cycle])
     (Returns None) (Raises (OtherError ''bad reply'')))) = True \<and>
   raised (async_update (after_updates example_server [online_cycle])
     \<lparr> srv_answer = Returns None, ping_answer = Raises (OtherError ''bad reply''),
       status_answer = Returns example_response \<rparr>) = Some (OtherError ''bad reply'') \<and>
   online (fst (async_update (after_updates example_server [online_cycle])
     \<lparr> srv_answer = Returns None, ping_answer = Raises (OtherError ''bad reply''),
       status_answer = Returns example_response \<rparr>)) = True \<and>
   filter is_DispatcherSend (events_of (async_update (after_updates example_server [online_cycle])
     \<lparr> srv_answer = Returns None, ping_answer = Raises (OtherError ''bad reply''),
       status_answer = Returns example_response \<rparr>)) = []"
proof -
  have h: "srv_record_checked example_server \<or>
           (Returns None :: (string \<times> int) option outcome) = Returns None"
    by simp
  have on: "online (after_updates example_server [online_cycle])"
    by (simp add: method_defs init_def)
  from probe_catches_only_OSError [OF h, of "OSError ''timed out''" offline_cycle]
    probe_catches_only_OSError [of "after_updates example_server [online_cycle]" "Returns None"
      "OtherError ''bad reply''"
      "\<lparr> srv_answer = Returns None, ping_answer = Raises (OtherError ''bad reply''),
        status_answer = Returns example_response \<rparr>"] on
  show ?thesis by simp
qed

text \<open>
  C3, as stated: any run of one or more consecutive failures of the metrics request logs
  one warning and keeps the flag \<open>_last_status_request_failed\<close> set. The handler of
  \<open>_async_status_request\<close> names \<open>OSError\<close> only. A metrics request that fails with an
  exception of another class logs nothing and leaves the flag unset, and the success
  after two such failures logs no recovery info.
\<close>

theorem metrics_fetch_other_error_counterexample:
  "map user_logs (status_requests example_server
      [Raises (OtherError ''bad reply''), Raises (OtherError ''bad reply''),
       Returns example_response]) = [[], [], []] \<and>
   map (\<lambda>r. last_status_request_failed (fst r)) (status_requests example_server
      [Raises (OtherError ''bad reply''), Raises (OtherError ''bad reply''),
       Returns example_response]) = [False, False, False] \<and>
   map raised (status_requests example_server
      [Raises (OtherError ''bad reply''), Raises (OtherError ''bad reply''),
       Returns example_response]) =
     [Some (OtherError ''bad reply''), Some (OtherError ''bad reply''), None]"
  by (simp add: method_defs init_def)

text \<open>
  C3, amended: consecutive metrics requests on a monitor whose flag
  \<open>_last_status_request_failed\<close> is unset (as it is after construction and after every
  success). A run of one or more requests failing with \<open>OSError\<close> logs one warning, at the
  first, and the flag is set after each of them; the first success after the run logs one
  info and unsets the flag; further successes log nothing and the flag stays unset. A
  request that fails with an exception of another class, on any monitor, is not handled:
  the exception leaves the method, nothing is logged and the object, the flag included,
  is as before.
\<close>

theorem metrics_fetch_debounce:
  assumes "\<not> last_status_request_failed s"
  shows "map user_logs
           (status_requests s (map (\<lambda>e. Raises (OSError e)) (e # es) @ map Returns (r # rs))) =
           [Log WARNING (UpdateFailed (host s) (port s) e)] # replicate (length es) [] @
           [Log INFO (UpdateSucceeded (host s) (port s))] # replicate (length rs) [] \<and>
         map (\<lambda>r. last_status_request_failed (fst r))
           (status_requests s (map (\<lambda>e. Raises (OSError e)) (e # es) @ map Returns (r # rs))) =
           replicate (Suc (length es)) True @ replicate (Suc (length rs)) False \<and>
         (\<not> is_OSError x \<longrightarrow>
            raised (async_status_request s' (Raises x)) = Some x \<and>
            user_logs (async_status_request s' (Raises x)) = [] \<and>
            fst (async_status_request s' (Raises x)) = s')"
proof -
  let ?s1 = "fst (async_status_request s (Raises (OSError e)))"
  let ?fs = "map (\<lambda>e. Raises (OSError e)) es"
  let ?s2 = "after_status_requests ?s1 ?fs"
  let ?s3 = "fst (async_status_request ?s2 (Returns r))"
  have f1: "last_status_request_failed ?s1" by (rule status_request_fail(2))
  note run1 = failures_silent [OF f1, of es]
  have hp: "host ?s2 = host s" "port ?s2 = port s"
    by (simp_all add: after_status_requests_keeps status_request_keeps)
  have f3: "\<not> last_status_request_failed ?s3" by (rule status_request_ok(2))
  note run3 = successes_silent [OF f3, of rs]
  have other: "\<not> is_OSError x \<longrightarrow>
            raised (async_status_request s' (Raises x)) = Some x \<and>
            user_logs (async_status_request s' (Raises x)) = [] \<and>
            fst (async_status_request s' (Raises x)) = s'"
    by (simp add: status_request_unhandled)
  show ?thesis
    using assms run1 run3 hp other
    by (simp add: status_requests_append status_request_fail status_request_ok)
qed

theorem metrics_fetch_debounce_witness:
  "map user_logs (status_requests example_server
      [Raises (OSError ''a''), Raises (OSError ''b''), Returns example_response,
       Returns example_response]) =
     [[Log WARNING (UpdateFailed ''mc.example.org'' 19132 ''a'')], [],
      [Log INFO (UpdateSucceeded ''mc.example.org'' 19132)], []] \<and>
   map (\<lambda>r. last_status_request_failed (fst r)) (status_requests example_server
      [Raises (OSError ''a''), Raises (OSError ''b''), Returns example_response,
       Returns example_response]) = [True, True, False, False] \<and>
   raised (async_status_request (after_updates example_server [online_cycle])
      (Raises (OtherError ''bad reply''))) = Some (OtherError ''bad reply'') \<and>
   user_logs (async_status_request (after_updates example_server [online_cycle])
      (Raises (OtherError ''bad reply''))) = [] \<and>
   fst (async_status_request (after_updates example_server [online_cycle])
      (Raises (OtherError ''bad reply''))) = after_updates example_server [online_cycle]"
proof -
  have h: "\<not> last_status_request_failed example_server" by (simp add: init_def)
  from metrics_fetch_debounce [OF h, of "''a''" "[''b'']" example_response "[example_response]"
      "OtherError ''bad reply''" "after_updates example_server [online_cycle]"]
  show ?thesis by (simp add: init_def)
qed

text \<open>
  C4, as stated: from a fresh monitor the cycles [ping fails, ping fails, ping succeeds]
  log [warning, nothing, info]. A fresh monitor has \<open>online = False\<close>, so the first
  failing ping is no change of state and logs no warning: the first cycle logs nothing at
  warning or info level, and the three cycles together log one info.
\<close>

theorem first_failure_silent_counterexample:
  "user_logs (hd (run_updates example_server [offline_cycle, offline_cycle, online_cycle])) = [] \<and>
   filter is_user_log (concat (map events_of
     (run_updates example_server [offline_cycle, offline_cycle, online_cycle]))) =
     [Log INFO (ConnEstablished ''mc.example.org'' 19132)]"
  by (simp add: method_defs init_def)

text \<open>
  C4, amended: from a fresh monitor whose SRV check finds no record, the cycles
  [ping fails with \<open>OSError\<close>, ping fails with \<open>OSError\<close>, ping and metrics request
  succeed] log, at warning and info level, [nothing, nothing, the info that the connection
  is established], and \<open>online\<close> is [False, False, True] after them.
\<close>

theorem recovery_scenario:
  "map user_logs (run_updates (init prefix uid nm h p)
     [\<lparr> srv_answer = Returns None, ping_answer = Raises (OSError e1), status_answer = a1 \<rparr>,
      \<lparr> srv_answer = v2, ping_answer = Raises (OSError e2), status_answer = a2 \<rparr>,
      \<lparr> srv_answer = v3, ping_answer = Returns r3, status_answer = Returns r3' \<rparr>]) =
     [[], [], [Log INFO (ConnEstablished h p)]] \<and>
   map (\<lambda>r. online (fst r)) (run_updates (init prefix uid nm h p)
     [\<lparr> srv_answer = Returns None, ping_answer = Raises (OSError e1), status_answer = a1 \<rparr>,
      \<lparr> srv_answer = v2, ping_answer = Raises (OSError e2), status_answer = a2 \<rparr>,
      \<lparr> srv_answer = v3, ping_answer = Returns r3, status_answer = Returns r3' \<rparr>]) =
     [False, False, True]"
  by (simp add: method_defs init_def)

text \<open>
  C5: in any sequence of calls of \<open>async_update\<close>, from any monitor, the call number
  \<open>i\<close> logs the warning that the connection is lost exactly when \<open>online\<close> was set
  before the call and is unset after it, and logs the info that the connection is
  established exactly when \<open>online\<close> was unset before and is set after; a call that
  leaves \<open>online\<close> as it was logs neither. Calls that raise are included.
\<close>

theorem transition_events_edge_triggered:
  assumes "i < length cs"
  shows "filter is_conn_lost (events_of (run_updates s cs ! i)) =
           (if online (states_before s cs ! i) \<and> \<not> online (fst (run_updates s cs ! i))
            then [Log WARNING (ConnLost (host (fst (run_updates s cs ! i)))
                                        (port (fst (run_updates s cs ! i))))]
            else []) \<and>
         filter is_conn_established (events_of (run_updates s cs ! i)) =
           (if \<not> online (states_before s cs ! i) \<and> online (fst (run_updates s cs ! i))
            then [Log INFO (ConnEstablished (host (fst (run_updates s cs ! i)))
                                            (port (fst (run_updates s cs ! i))))]
            else [])"
  using assms
proof (induction cs arbitrary: s i)
  case Nil
  then show ?case by simp
next
  case (Cons c cs)
  show ?case
  proof (cases i)
    case 0
    then show ?thesis using update_edges [of s c] by simp
  next
    case (Suc j)
    with Cons.prems have "j < length cs" by simp
    from Cons.IH [OF this, of "fst (async_update s c)"] Suc show ?thesis by simp
  qed
qed

theorem transition_events_witness:
  "filter is_conn_lost (events_of (run_updates example_server [online_cycle, offline_cycle, offline_cycle] ! 1)) =
     [Log WARNING (ConnLost ''mc.example.org'' 19132)] \<and>
   filter is_conn_lost (events_of (run_updates example_server [online_cycle, offline_cycle, offline_cycle] ! 2)) = []"
proof -
  have a: "(1::nat) < length [online_cycle, offline_cycle, offline_cycle]" by simp
  have b: "(2::nat) < length [online_cycle, offline_cycle, offline_cycle]" by simp
  have n: "(2::nat) = Suc (Suc 0)" by simp
  show ?thesis
    using transition_events_edge_triggered [OF a, of example_server]
      transition_events_edge_triggered [OF b, of example_server]
    by (simp add: method_defs init_def n)
qed

text \<open>
  C6, as stated: when the ping is answered and the metrics request fails, the monitor
  stays online and the metric attributes are all set to \<open>None\<close>. When the metrics request
  fails with an exception that is no \<open>OSError\<close>, nothing is cleared: after one fully
  answered cycle and one such cycle the monitor is online and still holds the version and
  the player count of the first cycle, and the exception leaves \<open>async_update\<close>.
\<close>

theorem metrics_not_blanked_counterexample:
  "online (fst (async_update (after_updates example_server [online_cycle])
      \<lparr> srv_answer = Returns None, ping_answer = Returns example_response,
        status_answer = Raises (OtherError ''bad reply'') \<rparr>)) \<and>
   version (fst (async_update (after_updates example_server [online_cycle])
      \<lparr> srv_answer = Returns None, ping_answer = Returns example_response,
        status_answer = Raises (OtherError ''bad reply'') \<rparr>)) = Some ''MCPE'' \<and>
   players_online (fst (async_update (after_updates example_server [online_cycle])
      \<lparr> srv_answer = Returns None, ping_answer = Returns example_response,
        status_answer = Raises (OtherError ''bad reply'') \<rparr>)) = Some 2 \<and>
   \<not> metrics_blank (fst (async_update (after_updates example_server [online_cycle])
      \<lparr> srv_answer = Returns None, ping_answer = Returns example_response,
        status_answer = Raises (OtherError ''bad reply'') \<rparr>)) \<and>
   raised (async_update (after_updates example_server [online_cycle])
      \<lparr> srv_answer = Returns None, ping_answer = Returns example_response,
        status_answer = Raises (OtherError ''bad reply'') \<rparr>) = Some (OtherError ''bad reply'')"
  by (simp add: method_defs init_def metrics_blank_def)

text \<open>
  C6, amended: a metrics request that fails with \<open>OSError\<close> changes the metric attributes
  (all to \<open>None\<close>, \<open>players_list\<close> included) and the flag \<open>_last_status_request_failed\<close>,
  and nothing else; in particular \<open>online\<close> is as before. In a whole cycle whose SRV check
  does not raise, whose ping is answered and whose metrics request fails so, the call
  completes and the monitor ends online with the attributes blank; beside them only the
  SRV flag and \<open>online\<close>, set by the steps before, differ. When the metrics request fails
  with an exception of another class, the request changes nothing: in such a cycle the
  exception leaves \<open>async_update\<close>, the monitor ends online, and the metric attributes and
  the flag are as before the cycle.
\<close>

theorem metrics_failure_frame:
  "fst (async_status_request s (Raises (OSError e))) =
     s\<lparr>version := None, protocol_version := None, players_online := None,
       players_max := None, latency_time := None, players_list := None, motd := None,
       map_field := None, last_status_request_failed := True\<rparr> \<and>
   online (fst (async_status_request s (Raises (OSError e)))) = online s \<and>
   ((srv_record_checked s \<or> srv_answer c = Returns None) \<and>
    ping_answer c = Returns r \<and> status_answer c = Raises (OSError e) \<longrightarrow>
      raised (async_update s c) = None \<and>
      fst (async_update s c) =
        s\<lparr>srv_record_checked := True, online := True,
          version := None, protocol_version := None, players_online := None,
          players_max := None, latency_time := None, players_list := None, motd := None,
          map_field := None, last_status_request_failed := True\<rparr>) \<and>
   (\<not> is_OSError x \<longrightarrow> fst (async_status_request s (Raises x)) = s) \<and>
   ((srv_record_checked s \<or> srv_answer c = Returns None) \<and>
    ping_answer c = Returns r \<and> status_answer c = Raises x \<and> \<not> is_OSError x \<longrightarrow>
      raised (async_update s c) = Some x \<and>
      fst (async_update s c) = s\<lparr>srv_record_checked := True, online := True\<rparr>)"
  by (auto simp add: method_defs)

theorem metrics_failure_frame_witness:
  "online (fst (async_update (after_updates example_server [online_cycle])
      \<lparr> srv_answer = Returns None, ping_answer = Returns example_response,
        status_answer = Raises (OSError ''timed out'') \<rparr>)) \<and>
   metrics_blank (fst (async_update (after_updates example_server [online_cycle])
      \<lparr> srv_answer = Returns None, ping_answer = Returns example_response,
        status_answer = Raises (OSError ''timed out'') \<rparr>)) \<and>
   version (after_updates example_server [online_cycle]) = Some ''MCPE'' \<and>
   fst (async_update (after_updates example_server [online_cycle])
      \<lparr> srv_answer = Returns None, ping_answer = Returns example_response,
        status_answer = Raises (OtherError ''bad reply'') \<rparr>) =
     after_updates example_server [online_cycle]"
  using metrics_failure_frame [of "after_updates example_server [online_cycle]" "''timed out''"
      "\<lparr> srv_answer = Returns None, ping_answer = Returns example_response,
        status_answer = Raises (OSError ''timed out'') \<rparr>" example_response]
    metrics_failure_frame [of "after_updates example_server [online_cycle]" _
      "\<lparr> srv_answer = Returns None, ping_answer = Returns example_response,
        status_answer = Raises (OtherError ''bad reply'') \<rparr>" example_response
      "OtherError ''bad reply''"]
  by (simp add: metrics_blank_def) (simp add: method_defs init_def)

text \<open>
  C7: a call of \<open>async_update\<close> that completes (no exception leaves it) sends the
  dispatcher signal of the monitor exactly once, whatever the collaborators answered.
\<close>

theorem one_notification_per_completed_cycle:
  "raised (async_update s c) = None \<Longrightarrow>
     filter is_DispatcherSend (events_of (async_update s c)) = [DispatcherSend (signal_name s)]"
proof (cases rule: update_cases [of s c])
  case aborted
  assume "raised (async_update s c) = None"
  with aborted show ?thesis by (simp add: async_update_aborted)
next
  case offline
  then show ?thesis
    using check_connection_keeps(5) [of s "srv_answer c" "ping_answer c"]
    by (simp add: async_update_offline transition_log_filters events_of_def)
next
  case online
  assume "raised (async_update s c) = None"
  with online show ?thesis
    using check_connection_keeps(5) [of s "srv_answer c" "ping_answer c"]
      status_request_keeps(9) [of "fst (async_check_connection s (srv_answer c) (ping_answer c))" "status_answer c"]
    by (simp add: async_update_online transition_log_filters events_of_def raised_def
        split: if_splits)
qed

theorem one_notification_witness:
  "raised (async_update example_server offline_cycle) = None \<and>
   filter is_DispatcherSend (events_of (async_update example_server offline_cycle)) =
     [DispatcherSend ''signal_minecraft_bedrock_abc123'']"
proof -
  have h: "raised (async_update example_server offline_cycle) = None"
    by (simp add: method_defs init_def)
  from one_notification_per_completed_cycle [OF h] h show ?thesis
    by (simp add: init_def)
qed

text \<open>
  C8: over any sequence of calls on a monitor built by \<open>__init__\<close>, the SRV helper is
  called at most once, whatever it and the status queries answer or raise; and host and
  port after any number of further calls are what they were after the first call.
\<close>

theorem srv_lookup_at_most_once:
  "length (filter is_SrvLookup
     (concat (map events_of (run_updates (init prefix uid nm h p) cs)))) \<le> 1 \<and>
   host (after_updates (init prefix uid nm h p) (c # cs)) =
     host (after_updates (init prefix uid nm h p) [c]) \<and>
   port (after_updates (init prefix uid nm h p) (c # cs)) =
     port (after_updates (init prefix uid nm h p) [c])"
proof -
  have "length (filter is_SrvLookup (concat (map events_of (run_updates s cs)))) \<le> 1" for s
  proof (cases cs)
    case Nil
    then show ?thesis by simp
  next
    case (Cons d ds)
    then show ?thesis
      using update_lookups [of s d] run_done [OF update_sets_flag, of s d ds] by simp
  qed
  then show ?thesis
    using run_done [OF update_sets_flag, of "init prefix uid nm h p" c cs] by simp
qed

text \<open>
  C9: the stored latency is the reported latency times 10000, rounded to three decimals.
  For a reported latency of one half (a binary fraction, so the float computation is
  exact) the monitor stores 5000; the value in milliseconds is 500 if the client reports
  seconds and 0.5 if it reports milliseconds.
\<close>

theorem latency_scaled_by_ten_thousand:
  "latency_time (fst (async_status_request s (Returns (r\<lparr>resp_latency := 1 / 2\<rparr>)))) = Some 5000 \<and>
   py_round3 (1 / 2 * 1000) = 500 \<and> py_round3 (1 / 2) = 1 / 2"
  by (simp add: async_status_request_def Let_def py_round3_def round_half_even_def)

text \<open>
  C10: when the SRV check has not been done and the helper returns a record, the call of
  \<open>async_update\<close> raises \<open>NameError\<close> for the unbound name \<open>MCStatus\<close> after host
  and port are overwritten: no status query is made, nothing is logged at warning or info
  level, no dispatcher signal is sent, and \<open>online\<close> and the client instance are as
  before. When the helper returns no record the SRV check raises nothing and the ping is
  made.
\<close>

theorem srv_rewrite_raises_NameError:
  "(\<not> srv_record_checked s \<and> srv_answer c = Returns (Some (h, p)) \<longrightarrow>
      raised (async_update s c) = Some (NameError ''MCStatus'') \<and>
      filter is_StatusCall (events_of (async_update s c)) = [] \<and>
      filter is_user_log (events_of (async_update s c)) = [] \<and>
      filter is_DispatcherSend (events_of (async_update s c)) = [] \<and>
      fst (async_update s c) = s\<lparr>srv_record_checked := True, host := h, port := p\<rparr>) \<and>
   (srv_answer c = Returns None \<longrightarrow>
      raised (srv_check s (srv_answer c)) = None \<and>
      StatusCall (fst (mc_status s)) (snd (mc_status s)) MAX_RETRIES_STATUS
        \<in> set (events_of (async_update s c)))"
  by (auto simp add: method_defs split: answer_splits)

theorem srv_rewrite_raises_NameError_witness:
  "raised (async_update example_server
     \<lparr> srv_answer = Returns (Some (''play.example.org'', 19133)),
       ping_answer = Returns example_response, status_answer = Returns example_response \<rparr>) =
     Some (NameError ''MCStatus'') \<and>
   filter is_DispatcherSend (events_of (async_update example_server
     \<lparr> srv_answer = Returns (Some (''play.example.org'', 19133)),
       ping_answer = Returns example_response, status_answer = Returns example_response \<rparr>)) = [] \<and>
   online (fst (async_update example_server
     \<lparr> srv_answer = Returns (Some (''play.example.org'', 19133)),
       ping_answer = Returns example_response, status_answer = Returns example_response \<rparr>)) = False \<and>
   StatusCall ''mc.example.org'' 19132 3 \<in> set (events_of (async_update example_server online_cycle))"
  using srv_rewrite_raises_NameError [of example_server
     "\<lparr> srv_answer = Returns (Some (''play.example.org'', 19133)),
       ping_answer = Returns example_response, status_answer = Returns example_response \<rparr>"
     "''play.example.org''" 19133]
    srv_rewrite_raises_NameError [of example_server online_cycle]
  by (simp add: init_def MAX_RETRIES_STATUS_def)

end
